theory Spec2Isabelle
  imports Main "HOL-Library.Sublist" "HOL-Library.Multiset"
begin

section \<open>JavaScript values used by the dispatcher\<close>

text \<open>
  Strings are lists of characters. An optional string stands for a JavaScript value
  that is a string, \<open>undefined\<close> or \<open>null\<close>; the conditions of the source
  (\<open>if (specificToken)\<close>, \<open>a || b\<close>) test truthiness, which for these values
  means: present and not empty.
\<close>

fun truthy :: "string option \<Rightarrow> bool" where
  "truthy None = False"
| "truthy (Some s) = (s \<noteq> [])"

text \<open>\<open>a || b\<close> on an optional string with a string default.\<close>

fun or_default :: "string option \<Rightarrow> string \<Rightarrow> string" where
  "or_default None d = d"
| "or_default (Some s) d = (if s \<noteq> [] then s else d)"

text \<open>\<open>s.includes(sub)\<close>: \<open>sub\<close> occurs in \<open>s\<close> as a contiguous run.\<close>

definition str_includes :: "string \<Rightarrow> string \<Rightarrow> bool" where
  "str_includes s sub = sublist sub s"

text \<open>
  \<open>s.toLowerCase()\<close>, on the ASCII letters: the characters of the model are bytes,
  so the case mappings of Unicode outside ASCII are not represented.
\<close>

definition lower_char :: "char \<Rightarrow> char" where
  "lower_char c =
     (let n = (of_char c :: nat) in if 65 \<le> n \<and> n \<le> 90 then char_of (n + 32) else c)"

definition toLowerCase :: "string \<Rightarrow> string" where
  "toLowerCase s = map lower_char s"

text \<open>\<open>s.slice(-n)\<close>: the last \<open>n\<close> characters, the whole string when it is shorter.\<close>

definition slice_last :: "nat \<Rightarrow> string \<Rightarrow> string" where
  "slice_last n s = drop (length s - n) s"

text \<open>A number inside a template literal: the decimal digits of a natural number.\<close>

fun string_of_nat :: "nat \<Rightarrow> string" where
  "string_of_nat n =
     (if n < 10 then [''0123456789'' ! n]
      else string_of_nat (n div 10) @ [''0123456789'' ! (n mod 10)])"

declare string_of_nat.simps [simp del]

text \<open>
  A thrown value is represented by the text the handler reads from it
  (\<open>error instanceof Error ? error.message : String(error)\<close>).
\<close>

datatype js_error = Error (message: string)

text \<open>
  The value \<open>JSON.parse\<close> returns. Numbers are only tested for truthiness by the
  dispatcher, so an integer stands for them. An object is the list of its own
  properties.
\<close>

datatype json =
    JNull
  | JBool bool
  | JNum int
  | JStr string
  | JArr "json list"
  | JObj "(string \<times> json) list"

fun js_truthy :: "json \<Rightarrow> bool" where
  "js_truthy JNull = False"
| "js_truthy (JBool b) = b"
| "js_truthy (JNum n) = (n \<noteq> 0)"
| "js_truthy (JStr s) = (s \<noteq> [])"
| "js_truthy (JArr _) = True"
| "js_truthy (JObj _) = True"

text \<open>
  \<open>v.name\<close> for a value that is not \<open>null\<close>, for the two property names the
  dispatcher reads (\<open>error\<close> and \<open>message\<close>, which no prototype of a parsed value
  defines): \<open>None\<close> is \<open>undefined\<close>.
\<close>

fun get_prop :: "json \<Rightarrow> string \<Rightarrow> json option" where
  "get_prop (JObj kvs) name = map_of kvs name"
| "get_prop _ name = None"

text \<open>\<open>v?.name\<close> on a value that may be \<open>undefined\<close> or \<open>null\<close>.\<close>

fun get_prop_opt :: "json option \<Rightarrow> string \<Rightarrow> json option" where
  "get_prop_opt None name = None"
| "get_prop_opt (Some JNull) name = None"
| "get_prop_opt (Some v) name = get_prop v name"

text \<open>\<open>a || b\<close> where \<open>a\<close> may be \<open>undefined\<close>.\<close>

fun js_or :: "json option \<Rightarrow> json \<Rightarrow> json" where
  "js_or None b = b"
| "js_or (Some a) b = (if js_truthy a then a else b)"

fun js_or_opt :: "json option \<Rightarrow> json option \<Rightarrow> json option" where
  "js_or_opt None b = b"
| "js_or_opt (Some a) b = (if js_truthy a then Some a else b)"

text \<open>
  The two \<open>TypeError\<close>s the error branch can raise, with the texts of V8: reading a
  property of \<open>null\<close>, and calling \<open>toLowerCase\<close> on a value that is not a string.
\<close>

definition TypeError_null :: js_error where
  "TypeError_null = Error ''Cannot read properties of null (reading 'error')''"

definition TypeError_toLowerCase :: js_error where
  "TypeError_toLowerCase = Error ''errorMessage.toLowerCase is not a function''"

section \<open>Data model of \<open>services/apiClient.ts\<close>\<close>

datatype token_source = Specific | Personal | Pool

record RequestAttempt =
  token :: string
  serverUrl :: string
  source :: token_source

text \<open>
  An entry of the shared pool. \<open>createdAt\<close> holds
  \<open>new Date(createdAt).getTime()\<close>, which the comparator of the sort computes: a
  number of milliseconds, or \<open>NaN\<close> (\<open>None\<close>) when the field is missing or does
  not parse as a date.
\<close>

record pool_entry =
  pool_token :: string
  createdAt :: "int option"

text \<open>The user object stored under \<open>currentUser\<close> in \<open>localStorage\<close>.\<close>

record user =
  user_id :: "string option"
  username :: "string option"
  personalAuthToken :: "string option"

text \<open>
  What the dispatcher reads from its surroundings: the host name of the page, the two
  storages and the constant \<open>PROXY_SERVER_URLS\<close> of \<open>serverConfig\<close>.
  \<open>currentUser\<close> is \<open>None\<close> when the item is absent, does not parse or is falsy;
  \<open>veoAuthTokens\<close> is \<open>None\<close> when the item is absent, does not parse or is not an
  array.
\<close>

record browser =
  hostname :: string
  selectedProxyServer :: "string option"
  currentUser :: "user option"
  veoAuthTokens :: "pool_entry list option"
  PROXY_SERVER_URLS :: "string list"

text \<open>
  The three calls of \<open>Array.prototype.sort\<close>. ECMAScript fixes the result of a sort
  only for a consistent comparator and leaves the order to the engine otherwise, so
  the engine's sort of the pool (\<open>sortPool\<close>, applied to the comparator) and the
  orders that the two calls of \<open>sort(() => 0.5 - Math.random())\<close> produce are inputs
  of the model. A number a comparator returns is an integer or \<open>NaN\<close> (\<open>None\<close>).
\<close>

record array_sorts =
  sortPool :: "(pool_entry \<Rightarrow> pool_entry \<Rightarrow> int option) \<Rightarrow> pool_entry list \<Rightarrow> pool_entry list"
  shufflePool :: "pool_entry list \<Rightarrow> pool_entry list"
  shuffleServers :: "string list \<Rightarrow> string list"

datatype service = veo | imagen

text \<open>
  The arguments of \<open>executeProxiedRequest\<close>. \<open>requestBody\<close> is the text
  \<open>JSON.stringify\<close> gives; \<open>onStatusUpdate\<close> says whether the callback was passed.
\<close>

record call =
  relativePath :: string
  serviceType :: service
  requestBody :: string
  logContext :: string
  specificToken :: "string option"
  onStatusUpdate :: bool
  overrideServerUrl :: "string option"

section \<open>Resolving servers and credentials\<close>

definition getVeoProxyUrl :: "browser \<Rightarrow> string" where
  "getVeoProxyUrl env =
     (if hostname env = ''localhost'' then ''http://localhost:3001''
      else or_default (selectedProxyServer env) ''https://veox.monoklix.com'')"

definition getImagenProxyUrl :: "browser \<Rightarrow> string" where
  "getImagenProxyUrl env =
     (if hostname env = ''localhost'' then ''http://localhost:3001''
      else or_default (selectedProxyServer env) ''https://gemx.monoklix.com'')"

text \<open>
  \<open>getPersonalToken\<close>: the token of the stored user when it is truthy. The source
  pairs it with the marker \<open>createdAt: 'personal'\<close>, which is never read.
\<close>

definition getPersonalToken :: "browser \<Rightarrow> string option" where
  "getPersonalToken env =
     (case currentUser env of
        None \<Rightarrow> None
      | Some u \<Rightarrow> if truthy (personalAuthToken u) then personalAuthToken u else None)"

text \<open>
  The comparator of \<open>getSharedTokensFromSession\<close>,
  \<open>(a, b) => new Date(b.createdAt).getTime() - new Date(a.createdAt).getTime()\<close>:
  \<open>NaN\<close> as soon as one of the two dates is.
\<close>

definition newest_first :: "pool_entry \<Rightarrow> pool_entry \<Rightarrow> int option" where
  "newest_first a b =
     (case (createdAt b, createdAt a) of
        (Some tb, Some ta) \<Rightarrow> Some (tb - ta)
      | _ \<Rightarrow> None)"

text \<open>\<open>getSharedTokensFromSession\<close>: the stored array, sorted with that comparator.\<close>

definition getSharedTokensFromSession :: "browser \<Rightarrow> array_sorts \<Rightarrow> pool_entry list" where
  "getSharedTokensFromSession env rnd =
     (case veoAuthTokens env of
        None \<Rightarrow> []
      | Some parsed \<Rightarrow> sortPool rnd newest_first parsed)"

definition getCurrentUserInternal :: "browser \<Rightarrow> user option" where
  "getCurrentUserInternal env =
     (case currentUser env of
        None \<Rightarrow> None
      | Some u \<Rightarrow> if truthy (user_id u) then Some u else None)"

definition currentServerUrl :: "browser \<Rightarrow> call \<Rightarrow> string" where
  "currentServerUrl env c =
     or_default (overrideServerUrl c)
       (case serviceType c of veo \<Rightarrow> getVeoProxyUrl env | imagen \<Rightarrow> getImagenProxyUrl env)"

section \<open>Building the attempt list\<close>

text \<open>
  The closure \<open>addAttempt\<close> updates two variables of \<open>executeProxiedRequest\<close>: the
  list \<open>attempts\<close> and the set \<open>usedAttempts\<close> of the keys already taken.
\<close>

record plan_state =
  attempts :: "RequestAttempt list"
  usedAttempts :: "string set"

definition attempt_key :: "RequestAttempt \<Rightarrow> string" where
  "attempt_key attempt = slice_last 6 (token attempt) @ ''@'' @ serverUrl attempt"

definition addAttempt :: "plan_state \<Rightarrow> RequestAttempt \<Rightarrow> plan_state" where
  "addAttempt st attempt =
     (let key = attempt_key attempt in
      if key \<notin> usedAttempts st
      then st\<lparr>attempts := attempts st @ [attempt], usedAttempts := insert key (usedAttempts st)\<rparr>
      else st)"

definition empty_plan :: plan_state where
  "empty_plan = \<lparr>attempts = [], usedAttempts = {}\<rparr>"

text \<open>
  Scenario C of step 2, for a user without a personal token: the pool on the current
  server, then the first three of the pool on up to two other servers. \<open>forEach\<close>
  over a list is a left fold of \<open>addAttempt\<close>.
\<close>

definition hybrid_plan :: "browser \<Rightarrow> array_sorts \<Rightarrow> call \<Rightarrow> plan_state" where
  "hybrid_plan env rnd c =
     (let server = currentServerUrl env c;
          allSharedTokens = getSharedTokensFromSession env rnd;
          newestPoolTokens = take 10 allSharedTokens;
          shuffledPool = shufflePool rnd newestPoolTokens;
          phase1 = foldl (\<lambda>st t. addAttempt st
                     \<lparr>token = pool_token t, serverUrl = server, source = Pool\<rparr>)
                     empty_plan shuffledPool
      in if \<not> truthy (overrideServerUrl c) then
           (let otherServers = filter (\<lambda>s. s \<noteq> server) (PROXY_SERVER_URLS env);
                backupServers = take 2 (shuffleServers rnd otherServers)
            in foldl (\<lambda>st backupServer.
                  foldl (\<lambda>st t. addAttempt st
                     \<lparr>token = pool_token t, serverUrl = backupServer, source = Pool\<rparr>)
                     st (take 3 shuffledPool))
                  phase1 backupServers)
         else phase1)"

text \<open>Step 2 of \<open>executeProxiedRequest\<close>, the three scenarios.\<close>

definition build_plan :: "browser \<Rightarrow> array_sorts \<Rightarrow> call \<Rightarrow> plan_state" where
  "build_plan env rnd c =
     (let server = currentServerUrl env c;
          personal = getPersonalToken env
      in if truthy (specificToken c) then
           (let specific = the (specificToken c);
                sourceLabel = (if personal = Some specific then Personal else Specific)
            in addAttempt empty_plan
                 \<lparr>token = specific, serverUrl = server, source = sourceLabel\<rparr>)
         else if personal \<noteq> None then
           addAttempt empty_plan \<lparr>token = the personal, serverUrl = server, source = Personal\<rparr>
         else hybrid_plan env rnd c)"

definition buildAttempts :: "browser \<Rightarrow> array_sorts \<Rightarrow> call \<Rightarrow> RequestAttempt list" where
  "buildAttempts env rnd c = attempts (build_plan env rnd c)"

section \<open>The network, the admission gate and the log\<close>

text \<open>The request of one attempt: \<open>POST\<close> to \<open>endpoint\<close> with these headers and body.\<close>

record http_request =
  endpoint :: string
  authorization :: string
  x_user_username :: string
  request_body :: string

text \<open>
  The text of a response body, by what \<open>JSON.parse\<close> does with it: it throws
  (\<open>NotJson\<close>, with the text) or returns a value (\<open>JsonText\<close>).
\<close>

datatype body_text = NotJson string | JsonText json

record http_response =
  status :: nat
  ok :: bool
  body :: body_text

text \<open>
  The two awaits of an attempt, \<open>fetch\<close> and \<open>response.text()\<close>, sit in the same
  \<open>try\<close> with no branch between them: either one of them throws
  (\<open>NetworkError\<close>) or the response with its text is there (\<open>Response\<close>).
\<close>

datatype fetch_result = NetworkError js_error | Response http_response

text \<open>
  \<open>await supabase.rpc(...)\<close> returns or throws. The value it returns may report
  an error of the call (\<open>Resolved (Some text)\<close>) or none (\<open>Resolved None\<close>); the
  source discards that value.
\<close>

datatype rpc_outcome = Resolved "string option" | Rejected js_error

record log_entry =
  log_model :: string
  log_prompt :: string
  log_output :: string
  log_tokenCount :: nat
  log_status :: string
  log_error :: string

text \<open>
  What a dispatch does to the outside, in order: calls of \<open>onStatusUpdate\<close>, the call
  of \<open>supabase.rpc\<close> (function name, \<open>cooldown_seconds\<close>, \<open>server_url\<close>), a
  \<open>fetch\<close> (with the index of the attempt) and a call of \<open>addLogEntry\<close>. Output on the
  console is left out.
\<close>

datatype event =
    StatusUpdate string
  | RpcCall string nat string
  | Fetch nat http_request
  | AddLogEntry log_entry

record success =
  data :: json
  successfulToken :: string
  successfulServerUrl :: string

type_synonym outcome = "(js_error + success) \<times> event list"

section \<open>One attempt\<close>

text \<open>
  \<open>data.error?.message || data.message || `API call failed (${status})`\<close>: reading
  \<open>data.error\<close> throws when \<open>data\<close> is \<open>null\<close>.
\<close>

definition extract_errorMessage :: "json \<Rightarrow> nat \<Rightarrow> js_error + json" where
  "extract_errorMessage d st =
     (case d of
        JNull \<Rightarrow> Inl TypeError_null
      | _ \<Rightarrow> Inr (js_or
                 (js_or_opt (get_prop_opt (get_prop d ''error'') ''message'') (get_prop d ''message''))
                 (JStr (''API call failed ('' @ string_of_nat st @ '')''))))"

text \<open>The value of \<open>data\<close> after the inner \<open>try\<close> around \<open>JSON.parse\<close>.\<close>

definition parse_body :: "http_response \<Rightarrow> json" where
  "parse_body response =
     (case body response of
        JsonText v \<Rightarrow> v
      | NotJson _ \<Rightarrow>
          JObj [(''error'', JObj [(''message'',
            JStr (''Proxy returned non-JSON ('' @ string_of_nat (status response) @ '')''))])])"

text \<open>
  The body of the outer \<open>try\<close> once the network has answered: it returns, goes on to
  the next attempt (\<open>continue\<close>) or throws into the \<open>catch\<close>.
\<close>

datatype try_result = Return success | Continue | Throw js_error

definition try_body :: "bool \<Rightarrow> RequestAttempt \<Rightarrow> fetch_result \<Rightarrow> try_result" where
  "try_body isLastAttempt attempt fr =
     (case fr of
        NetworkError e \<Rightarrow> Throw e
      | Response response \<Rightarrow>
          (let d = parse_body response in
           if \<not> ok response then
             (case extract_errorMessage d (status response) of
                Inl e \<Rightarrow> Throw e
              | Inr (JStr errorMessage) \<Rightarrow>
                  (let lowerMsg = toLowerCase errorMessage in
                   if status response = 400 \<or> str_includes lowerMsg ''safety''
                        \<or> str_includes lowerMsg ''blocked''
                   then Throw (Error (''['' @ string_of_nat (status response) @ ''] '' @ errorMessage))
                   else if isLastAttempt then Throw (Error errorMessage)
                   else Continue)
              | Inr _ \<Rightarrow> Throw TypeError_toLowerCase)
           else Return \<lparr>data = d, successfulToken = token attempt,
                         successfulServerUrl = serverUrl attempt\<rparr>))"

text \<open>The test of the \<open>catch\<close> block on the text of the caught error.\<close>

definition isSafetyError :: "string \<Rightarrow> bool" where
  "isSafetyError errMsg =
     (str_includes errMsg ''[400]'' \<or> str_includes (toLowerCase errMsg) ''safety''
        \<or> str_includes (toLowerCase errMsg) ''blocked'')"

definition make_request :: "call \<Rightarrow> string \<Rightarrow> RequestAttempt \<Rightarrow> http_request" where
  "make_request c uname attempt =
     \<lparr>endpoint = serverUrl attempt @ ''/api/''
         @ (case serviceType c of veo \<Rightarrow> ''veo'' | imagen \<Rightarrow> ''imagen'') @ relativePath c,
      authorization = ''Bearer '' @ token attempt,
      x_user_username = uname,
      request_body = requestBody c\<rparr>"

definition failure_log :: "call \<Rightarrow> nat \<Rightarrow> string \<Rightarrow> log_entry" where
  "failure_log c n errMsg =
     \<lparr>log_model = logContext c,
      log_prompt = ''Failed after '' @ string_of_nat n @ '' attempts'',
      log_output = errMsg,
      log_tokenCount = 0,
      log_status = ''Error'',
      log_error = errMsg\<rparr>"

section \<open>The strategy loop\<close>

text \<open>
  The \<open>for\<close> loop of step 3, from index \<open>i\<close>, with the variable \<open>lastError\<close> and
  the events so far. The answer of the network to the request of attempt \<open>i\<close> is
  \<open>net i request\<close>.
\<close>

function strategy_loop ::
  "call \<Rightarrow> string \<Rightarrow> (nat \<Rightarrow> http_request \<Rightarrow> fetch_result) \<Rightarrow> RequestAttempt list
     \<Rightarrow> nat \<Rightarrow> js_error \<Rightarrow> event list \<Rightarrow> outcome" where
  "strategy_loop c uname net atts i lastError tr =
     (if i < length atts then
        (let attempt = atts ! i;
             isLastAttempt = (i = length atts - 1);
             request = make_request c uname attempt;
             tr1 = tr @ [Fetch i request]
         in case try_body isLastAttempt attempt (net i request) of
              Return r \<Rightarrow> (Inr r, tr1)
            | Continue \<Rightarrow> strategy_loop c uname net atts (Suc i) lastError tr1
            | Throw error \<Rightarrow>
                (if isSafetyError (message error) then (Inl error, tr1)
                 else if isLastAttempt then
                   (Inl error,
                    if \<not> truthy (specificToken c)
                    then tr1 @ [AddLogEntry (failure_log c (length atts) (message error))]
                    else tr1)
                 else strategy_loop c uname net atts (Suc i) error tr1))
      else (Inl lastError, tr))"
  by pat_completeness auto
termination
  by (relation "measure (\<lambda>(c, uname, net, atts, i, lastError, tr). length atts - i)") auto

declare strategy_loop.simps [simp del]

section \<open>\<open>executeProxiedRequest\<close>\<close>

definition isGenerationRequest :: "call \<Rightarrow> bool" where
  "isGenerationRequest c =
     (str_includes (logContext c) ''GENERATE'' \<or> str_includes (logContext c) ''RECIPE'')"

definition status_update :: "call \<Rightarrow> string \<Rightarrow> event list" where
  "status_update c s = (if onStatusUpdate c then [StatusUpdate s] else [])"

definition request_username :: "browser \<Rightarrow> string" where
  "request_username env =
     (case getCurrentUserInternal env of
        None \<Rightarrow> ''unknown''
      | Some u \<Rightarrow> or_default (username u) ''unknown'')"

definition no_tokens_error :: js_error where
  "no_tokens_error = Error ''No authentication tokens found. Please claim a token in Settings.''"

text \<open>Steps 2 and 3, after the events \<open>tr\<close> of step 1.\<close>

definition run_attempts ::
  "browser \<Rightarrow> array_sorts \<Rightarrow> (nat \<Rightarrow> http_request \<Rightarrow> fetch_result) \<Rightarrow> call
     \<Rightarrow> event list \<Rightarrow> outcome" where
  "run_attempts env rnd net c tr =
     (let atts = buildAttempts env rnd c
      in if length atts = 0 then (Inl no_tokens_error, tr)
         else strategy_loop c (request_username env) net atts 0 (Error ''Unknown error'') tr)"

definition executeProxiedRequest ::
  "browser \<Rightarrow> array_sorts \<Rightarrow> rpc_outcome \<Rightarrow> (nat \<Rightarrow> http_request \<Rightarrow> fetch_result)
     \<Rightarrow> call \<Rightarrow> outcome" where
  "executeProxiedRequest env rnd gate net c =
     (if isGenerationRequest c then
        (let slot = status_update c ''Queueing...''
                      @ [RpcCall ''request_generation_slot'' 10 (currentServerUrl env c)]
         in case gate of
              Rejected e \<Rightarrow> (Inl e, slot)
            | Resolved _ \<Rightarrow>
                run_attempts env rnd net c (slot @ status_update c ''Processing...''))
      else run_attempts env rnd net c [])"

section \<open>Vocabulary of the properties\<close>

text \<open>
  The two variables of \<open>addAttempt\<close> stay in step: the set holds the keys of the
  list, and no key occurs twice in the list.
\<close>

definition plan_inv :: "plan_state \<Rightarrow> bool" where
  "plan_inv st \<longleftrightarrow>
     usedAttempts st = set (map attempt_key (attempts st)) \<and>
     distinct (map attempt_key (attempts st))"

text \<open>The fetches of the attempts \<open>i\<close> to \<open>k - 1\<close>, in the order of the plan.\<close>

definition attempt_fetches ::
  "call \<Rightarrow> string \<Rightarrow> RequestAttempt list \<Rightarrow> nat \<Rightarrow> nat \<Rightarrow> event list" where
  "attempt_fetches c u atts i k = map (\<lambda>j. Fetch j (make_request c u (atts ! j))) [i..<k]"

text \<open>The events of step 1 when the slot call returns or is not made.\<close>

definition gate_events :: "browser \<Rightarrow> call \<Rightarrow> event list" where
  "gate_events env c =
     (if isGenerationRequest c
      then status_update c ''Queueing...''
             @ [RpcCall ''request_generation_slot'' 10 (currentServerUrl env c)]
             @ status_update c ''Processing...''
      else [])"

text \<open>
  The error an attempt fails with when it is not marked terminal: the error of the
  transport, or an error with the message taken from the body.
\<close>

definition attempt_error :: "fetch_result \<Rightarrow> js_error" where
  "attempt_error fr =
     (case fr of
        NetworkError e \<Rightarrow> e
      | Response r \<Rightarrow>
          (case extract_errorMessage (parse_body r) (status r) of
             Inl e \<Rightarrow> e
           | Inr (JStr m) \<Rightarrow> Error m
           | Inr _ \<Rightarrow> TypeError_toLowerCase))"

text \<open>
  A failure that neither test marks terminal. For a transport error the only test is
  the one of the \<open>catch\<close> block. For a response the status is not a success, the
  body yields a message that is a string, the status is not 400 and the message names
  neither \<open>safety\<close> nor \<open>blocked\<close>; on the last attempt, where an error with this
  message reaches the \<open>catch\<close> block, the message does not contain \<open>[400]\<close>
  either.
\<close>

definition retriable_failure :: "bool \<Rightarrow> fetch_result \<Rightarrow> bool" where
  "retriable_failure isLastAttempt fr =
     (case fr of
        NetworkError e \<Rightarrow> \<not> isSafetyError (message e)
      | Response r \<Rightarrow>
          \<not> ok r \<and>
          (case extract_errorMessage (parse_body r) (status r) of
             Inr (JStr m) \<Rightarrow>
               status r \<noteq> 400 \<and> \<not> str_includes (toLowerCase m) ''safety''
                 \<and> \<not> str_includes (toLowerCase m) ''blocked''
                 \<and> \<not> (isLastAttempt \<and> str_includes m ''[400]'')
           | _ \<Rightarrow> False))"




section \<open>Concrete dispatches\<close>

text \<open>
  A page with three tokens in the shared pool, no stored user and three fallback
  servers; the same page with a user who has a personal token; and a page with no
  token at all.
\<close>

definition demo_env :: browser where
  "demo_env =
     \<lparr>hostname = ''app.monoklix.com'', selectedProxyServer = None, currentUser = None,
      veoAuthTokens = Some
        [\<lparr>pool_token = ''token-aaaaaa1'', createdAt = Some 1\<rparr>,
         \<lparr>pool_token = ''token-bbbbbb2'', createdAt = Some 3\<rparr>,
         \<lparr>pool_token = ''token-cccccc3'', createdAt = Some 2\<rparr>],
      PROXY_SERVER_URLS =
        [''https://s1.monoklix.com'', ''https://s2.monoklix.com'', ''https://s3.monoklix.com'']\<rparr>"

definition demo_personal_env :: browser where
  "demo_personal_env =
     demo_env\<lparr>currentUser := Some
       \<lparr>user_id = Some ''u-17'', username = Some ''aina'',
        personalAuthToken = Some ''personal-token-9''\<rparr>\<rparr>"

definition demo_empty_env :: browser where
  "demo_empty_env = demo_env\<lparr>veoAuthTokens := None\<rparr>"

text \<open>
  A sort as an engine may do it: insertion from the right end, stable, a comparison
  that is \<open>NaN\<close> taken as 0 (as \<open>SortCompare\<close> of ECMAScript does).
\<close>

fun insert_cmp :: "('a \<Rightarrow> 'a \<Rightarrow> int option) \<Rightarrow> 'a \<Rightarrow> 'a list \<Rightarrow> 'a list" where
  "insert_cmp cmp x [] = [x]"
| "insert_cmp cmp x (y # ys) =
     (if (case cmp x y of None \<Rightarrow> True | Some v \<Rightarrow> v \<le> 0) then x # y # ys
      else y # insert_cmp cmp x ys)"

definition insertion_sort :: "('a \<Rightarrow> 'a \<Rightarrow> int option) \<Rightarrow> 'a list \<Rightarrow> 'a list" where
  "insertion_sort cmp xs = foldr (insert_cmp cmp) xs []"

text \<open>An engine with that sort whose two random sorts reverse their lists.\<close>

definition demo_rnd :: array_sorts where
  "demo_rnd = \<lparr>sortPool = insertion_sort, shufflePool = rev, shuffleServers = rev\<rparr>"

definition demo_call :: call where
  "demo_call =
     \<lparr>relativePath = ''/generate'', serviceType = veo, requestBody = ''{}'',
      logContext = ''VEO GENERATE'', specificToken = None, onStatusUpdate = True,
      overrideServerUrl = None\<rparr>"

text \<open>A status poll pinned to a token and a server.\<close>

definition demo_status_call :: call where
  "demo_status_call =
     \<lparr>relativePath = ''/status'', serviceType = veo, requestBody = ''{}'',
      logContext = ''VEO STATUS'', specificToken = Some ''token-pinned-7'',
      onStatusUpdate = False, overrideServerUrl = Some ''https://s2.monoklix.com''\<rparr>"

text \<open>Responses of a proxy.\<close>

definition unavailable :: http_response where
  "unavailable =
     \<lparr>status = 503, ok = False,
      body = JsonText (JObj [(''error'', JObj [(''message'', JStr ''Service unavailable'')])])\<rparr>"

definition accepted :: http_response where
  "accepted =
     \<lparr>status = 200, ok = True, body = JsonText (JObj [(''name'', JStr ''operations/1'')])\<rparr>"

definition accepted_html :: http_response where
  "accepted_html = \<lparr>status = 200, ok = True, body = NotJson ''<html>OK</html>''\<rparr>"

text \<open>Networks: the first attempt fails and the second succeeds; the same with a
  success whose body is not JSON; every attempt fails.\<close>

definition net_second_ok :: "nat \<Rightarrow> http_request \<Rightarrow> fetch_result" where
  "net_second_ok i q = (if i = 0 then Response unavailable else Response accepted)"

definition net_second_html :: "nat \<Rightarrow> http_request \<Rightarrow> fetch_result" where
  "net_second_html i q = (if i = 0 then Response unavailable else Response accepted_html)"

definition net_unavailable :: "nat \<Rightarrow> http_request \<Rightarrow> fetch_result" where
  "net_unavailable i q = Response unavailable"

text \<open>
  More networks: the transport of the first attempt fails with a text that contains
  \<open>blocked\<close>; the first attempt gets a 400 whose \<open>message\<close> is a list of strings;
  every attempt gets a 500 whose message quotes \<open>[400]\<close>.
\<close>

definition net_transport_blocked :: "nat \<Rightarrow> http_request \<Rightarrow> fetch_result" where
  "net_transport_blocked i q =
     (if i = 0 then NetworkError (Error ''The request was blocked by the client'')
      else Response accepted)"

definition bad_request_list :: http_response where
  "bad_request_list =
     \<lparr>status = 400, ok = False,
      body = JsonText (JObj [(''statusCode'', JNum 400),
                             (''message'', JArr [JStr ''prompt should not be empty'']),
                             (''error'', JStr ''Bad Request'')])\<rparr>"

definition net_bad_request_list :: "nat \<Rightarrow> http_request \<Rightarrow> fetch_result" where
  "net_bad_request_list i q = (if i = 0 then Response bad_request_list else Response accepted)"

definition upstream_failed :: http_response where
  "upstream_failed =
     \<lparr>status = 500, ok = False,
      body = JsonText (JObj [(''error'',
               JObj [(''message'', JStr ''Upstream answered [400] to the proxy'')])])\<rparr>"

definition net_upstream_failed :: "nat \<Rightarrow> http_request \<Rightarrow> fetch_result" where
  "net_upstream_failed i q = Response upstream_failed"

definition net_transport_firewall :: "nat \<Rightarrow> http_request \<Rightarrow> fetch_result" where
  "net_transport_firewall i q =
     (if i = 1 then NetworkError (Error ''Connection blocked by the firewall'')
      else Response unavailable)"

definition net_transport_down :: "nat \<Rightarrow> http_request \<Rightarrow> fetch_result" where
  "net_transport_down i q =
     (if i = 2 then NetworkError (Error ''Failed to fetch'') else Response unavailable)"

text \<open>A generation request of the pool pinned to one server, and a page whose pool
  holds one token.\<close>

definition demo_override_call :: call where
  "demo_override_call = demo_call\<lparr>overrideServerUrl := Some ''https://s1.monoklix.com''\<rparr>"

definition demo_single_env :: browser where
  "demo_single_env =
     demo_env\<lparr>veoAuthTokens :=
       Some [\<lparr>pool_token = ''token-aaaaaa1'', createdAt = Some 1\<rparr>]\<rparr>"



section \<open>Properties of the attempt list\<close>

lemma plan_inv_empty: "plan_inv empty_plan"
  by (simp add: plan_inv_def empty_plan_def)

lemma plan_inv_addAttempt: "plan_inv st \<Longrightarrow> plan_inv (addAttempt st a)"
  by (auto simp: plan_inv_def addAttempt_def Let_def)

lemma plan_inv_foldl:
  "plan_inv st \<Longrightarrow> plan_inv (foldl (\<lambda>st t. addAttempt st (f t)) st xs)"
  by (induction xs arbitrary: st) (simp_all add: plan_inv_addAttempt)

lemma plan_inv_foldl_foldl:
  "plan_inv st \<Longrightarrow>
     plan_inv (foldl (\<lambda>st b. foldl (\<lambda>st t. addAttempt st (g b t)) st (ys b)) st bs)"
  by (induction bs arbitrary: st) (simp_all add: plan_inv_foldl)

lemma plan_inv_hybrid: "plan_inv (hybrid_plan env rnd c)"
  by (simp add: hybrid_plan_def Let_def plan_inv_empty plan_inv_foldl plan_inv_foldl_foldl)

lemma plan_inv_build: "plan_inv (build_plan env rnd c)"
  by (simp add: build_plan_def Let_def plan_inv_empty plan_inv_addAttempt plan_inv_hybrid)

lemma buildAttempts_distinct_keys: "distinct (map attempt_key (buildAttempts env rnd c))"
  using plan_inv_build[of env rnd c] by (simp add: plan_inv_def buildAttempts_def)

lemma distinct_map_factor: "distinct (map (\<lambda>x. f (g x)) xs) \<Longrightarrow> distinct (map g xs)"
  by (induction xs) auto

text \<open>
  C6. No two entries of the attempt list have the same pair of fingerprint (the last
  six characters of the token) and server URL, whatever the pool holds and however it
  is shuffled.
\<close>

theorem plan_no_duplicate_fingerprint_server:
  "distinct (map (\<lambda>a. (slice_last 6 (token a), serverUrl a)) (buildAttempts env rnd c))"
proof -
  have "attempt_key = (\<lambda>a. (\<lambda>(fp, s). fp @ ''@'' @ s) (slice_last 6 (token a), serverUrl a))"
    by (rule ext) (simp add: attempt_key_def)
  then have "distinct (map (\<lambda>a. (\<lambda>(fp, s). fp @ ''@'' @ s) (slice_last 6 (token a), serverUrl a))
               (buildAttempts env rnd c))"
    using buildAttempts_distinct_keys[of env rnd c] by simp
  then show ?thesis by (rule distinct_map_factor)
qed

section \<open>Properties of the strategy loop\<close>

lemma loop_exit:
  "\<not> i < length atts \<Longrightarrow> strategy_loop c u net atts i le tr = (Inl le, tr)"
  by (subst strategy_loop.simps) simp

lemma loop_Return:
  "i < length atts \<Longrightarrow>
   try_body (i = length atts - 1) (atts ! i) (net i (make_request c u (atts ! i))) = Return r \<Longrightarrow>
   strategy_loop c u net atts i le tr = (Inr r, tr @ [Fetch i (make_request c u (atts ! i))])"
  by (subst strategy_loop.simps) (simp add: Let_def)

lemma loop_Continue:
  "i < length atts \<Longrightarrow>
   try_body (i = length atts - 1) (atts ! i) (net i (make_request c u (atts ! i))) = Continue \<Longrightarrow>
   strategy_loop c u net atts i le tr =
     strategy_loop c u net atts (Suc i) le (tr @ [Fetch i (make_request c u (atts ! i))])"
  by (subst strategy_loop.simps) (simp add: Let_def)

lemma loop_Throw_safety:
  "i < length atts \<Longrightarrow>
   try_body (i = length atts - 1) (atts ! i) (net i (make_request c u (atts ! i))) = Throw e \<Longrightarrow>
   isSafetyError (message e) \<Longrightarrow>
   strategy_loop c u net atts i le tr = (Inl e, tr @ [Fetch i (make_request c u (atts ! i))])"
  by (subst strategy_loop.simps) (simp add: Let_def)

lemma loop_Throw_last:
  "i < length atts \<Longrightarrow>
   try_body (i = length atts - 1) (atts ! i) (net i (make_request c u (atts ! i))) = Throw e \<Longrightarrow>
   \<not> isSafetyError (message e) \<Longrightarrow> i = length atts - 1 \<Longrightarrow>
   strategy_loop c u net atts i le tr =
     (Inl e, tr @ [Fetch i (make_request c u (atts ! i))]
        @ (if \<not> truthy (specificToken c)
           then [AddLogEntry (failure_log c (length atts) (message e))] else []))"
  by (subst strategy_loop.simps) (simp add: Let_def)

lemma loop_Throw_next:
  "i < length atts \<Longrightarrow>
   try_body (i = length atts - 1) (atts ! i) (net i (make_request c u (atts ! i))) = Throw e \<Longrightarrow>
   \<not> isSafetyError (message e) \<Longrightarrow> i \<noteq> length atts - 1 \<Longrightarrow>
   strategy_loop c u net atts i le tr =
     strategy_loop c u net atts (Suc i) e (tr @ [Fetch i (make_request c u (atts ! i))])"
  by (subst strategy_loop.simps) (simp add: Let_def)

lemma try_body_ok:
  "ok r \<Longrightarrow> try_body l a (Response r) =
     Return \<lparr>data = parse_body r, successfulToken = token a, successfulServerUrl = serverUrl a\<rparr>"
  by (simp add: try_body_def Let_def)

lemma try_body_Return:
  "try_body l a fr = Return s \<Longrightarrow>
     \<exists>r. fr = Response r \<and> ok r \<and>
       s = \<lparr>data = parse_body r, successfulToken = token a, successfulServerUrl = serverUrl a\<rparr>"
  by (auto simp: try_body_def Let_def split: fetch_result.splits if_splits sum.splits json.splits)

lemma try_body_Continue: "try_body l a fr = Continue \<Longrightarrow> \<not> l"
  by (auto simp: try_body_def Let_def split: fetch_result.splits if_splits sum.splits json.splits)


lemma attempt_fetches_Cons:
  "i < k \<Longrightarrow> attempt_fetches c u atts i k
     = Fetch i (make_request c u (atts ! i)) # attempt_fetches c u atts (Suc i) k"
  by (simp add: attempt_fetches_def upt_conv_Cons)

lemma attempt_fetches_single:
  "attempt_fetches c u atts i (Suc i) = [Fetch i (make_request c u (atts ! i))]"
  by (simp add: attempt_fetches_def)

lemma loop_cases:
  assumes lt: "i < length atts"
  obtains
    (Stop) res lg where
      "strategy_loop c u net atts i le tr
         = (res, tr @ Fetch i (make_request c u (atts ! i)) # lg)"
      "lg = [] \<or> (\<exists>l. lg = [AddLogEntry l])"
  | (Next) le' where
      "strategy_loop c u net atts i le tr
         = strategy_loop c u net atts (Suc i) le' (tr @ [Fetch i (make_request c u (atts ! i))])"
      "Suc i < length atts"
      "\<And>r. net i (make_request c u (atts ! i)) = Response r \<Longrightarrow> \<not> ok r"
proof -
  let ?q = "make_request c u (atts ! i)"
  let ?tb = "try_body (i = length atts - 1) (atts ! i) (net i ?q)"
  show thesis
  proof (cases ?tb)
    case (Return s)
    show thesis by (rule Stop[of "Inr s" "[]"]) (simp_all add: loop_Return[where net = net and c = c and u = u, OF lt Return])
  next
    case Continue
    have nl: "i \<noteq> length atts - 1" using try_body_Continue[OF Continue] .
    have "\<not> ok r" if "net i ?q = Response r" for r
      using Continue that by (auto simp: try_body_ok)
    then show thesis
      using Next[of le] loop_Continue[where net = net and c = c and u = u, OF lt Continue] nl lt by fastforce
  next
    case (Throw e)
    have nok: "\<not> ok r" if "net i ?q = Response r" for r
      using Throw that by (auto simp: try_body_ok)
    consider "isSafetyError (message e)"
      | "\<not> isSafetyError (message e)" "i = length atts - 1"
      | "\<not> isSafetyError (message e)" "i \<noteq> length atts - 1" by blast
    then show thesis
    proof cases
      case 1
      show thesis by (rule Stop[of "Inl e" "[]"]) (simp_all add: loop_Throw_safety[where net = net and c = c and u = u, OF lt Throw 1])
    next
      case 2
      show thesis
        by (rule Stop[of "Inl e" "if \<not> truthy (specificToken c)
           then [AddLogEntry (failure_log c (length atts) (message e))] else []"])
           (simp_all add: loop_Throw_last[where net = net and c = c and u = u, OF lt Throw 2])
    next
      case 3
      show thesis
        using Next[of e] loop_Throw_next[where net = net and c = c and u = u, OF lt Throw 3] nok 3 lt by fastforce
    qed
  qed
qed


lemma loop_first_fetch:
  "i < length atts \<Longrightarrow>
     \<exists>ext. snd (strategy_loop c u net atts i le tr)
            = tr @ Fetch i (make_request c u (atts ! i)) # ext"
proof (induction "length atts - i" arbitrary: i le tr)
  case 0
  then show ?case by simp
next
  case (Suc n)
  from Suc.prems show ?case
  proof (cases rule: loop_cases[where c = c and u = u and net = net and le = le and tr = tr,
           consumes 1, case_names Stop Next])
    case (Stop res lg)
    then show ?thesis by simp
  next
    case (Next le')
    have "n = length atts - Suc i" using Suc.hyps(2) by simp
    from Suc.hyps(1)[OF this Next(2), of le' "tr @ [Fetch i (make_request c u (atts ! i))]"]
      Next(1)
    show ?thesis by auto
  qed
qed

lemma loop_extends:
  "\<exists>ext. snd (strategy_loop c u net atts i le tr) = tr @ ext \<and>
     (\<forall>e \<in> set ext.
        (\<exists>j. i \<le> j \<and> j < length atts \<and> e = Fetch j (make_request c u (atts ! j)))
        \<or> (\<exists>l. e = AddLogEntry l))"
proof (induction "length atts - i" arbitrary: i le tr)
  case 0
  then show ?case by (simp add: loop_exit)
next
  case (Suc n)
  then have lt: "i < length atts" by simp
  from lt show ?case
  proof (cases rule: loop_cases[where c = c and u = u and net = net and le = le and tr = tr,
           consumes 1, case_names Stop Next])
    case (Stop res lg)
    show ?thesis
      by (rule exI[of _ "Fetch i (make_request c u (atts ! i)) # lg"])
         (use Stop lt in auto)
  next
    case (Next le')
    have "n = length atts - Suc i" using Suc.hyps(2) by simp
    from Suc.hyps(1)[OF this, of le' "tr @ [Fetch i (make_request c u (atts ! i))]"]
    obtain ext where ext:
      "snd (strategy_loop c u net atts (Suc i) le' (tr @ [Fetch i (make_request c u (atts ! i))]))
         = (tr @ [Fetch i (make_request c u (atts ! i))]) @ ext"
      "\<forall>e \<in> set ext.
        (\<exists>j. Suc i \<le> j \<and> j < length atts \<and> e = Fetch j (make_request c u (atts ! j)))
        \<or> (\<exists>l. e = AddLogEntry l)"
      by blast
    have "\<forall>e \<in> set (Fetch i (make_request c u (atts ! i)) # ext).
        (\<exists>j. i \<le> j \<and> j < length atts \<and> e = Fetch j (make_request c u (atts ! j)))
        \<or> (\<exists>l. e = AddLogEntry l)"
      using ext(2) lt by (auto dest: Suc_leD)
    then show ?thesis
      by (intro exI[of _ "Fetch i (make_request c u (atts ! i)) # ext"] conjI)
         (simp_all add: Next(1) ext(1))
  qed
qed

text \<open>An attempt whose fetch is among the events was reached by the loop after the
  fetches of all attempts before it.\<close>

lemma loop_reach:
  assumes "i \<le> j"
    and "Fetch j q \<in> set (snd (strategy_loop c u net atts i le tr))"
    and "\<forall>q. Fetch j q \<notin> set tr"
  shows "\<exists>le'. strategy_loop c u net atts i le tr =
           strategy_loop c u net atts j le' (tr @ attempt_fetches c u atts i j)"
  using assms
proof (induction "j - i" arbitrary: i le tr)
  case 0
  then show ?case by (auto simp: attempt_fetches_def)
next
  case (Suc n)
  then have ij: "i < j" by simp
  have lt: "i < length atts"
  proof (rule ccontr)
    assume "\<not> i < length atts"
    then have "snd (strategy_loop c u net atts i le tr) = tr" by (simp add: loop_exit)
    with Suc.prems(2,3) show False by simp
  qed
  from lt show ?case
  proof (cases rule: loop_cases[where c = c and u = u and net = net and le = le and tr = tr,
           consumes 1, case_names Stop Next])
    case (Stop res lg)
    with Suc.prems(2,3) ij show ?thesis by auto
  next
    case (Next le')
    have n: "n = j - Suc i" using Suc.hyps(2) by simp
    have a: "Suc i \<le> j" using ij by simp
    have b: "Fetch j q
       \<in> set (snd (strategy_loop c u net atts (Suc i) le' (tr @ [Fetch i (make_request c u (atts ! i))])))"
      using Suc.prems(2) Next(1) by simp
    have d: "\<forall>q. Fetch j q \<notin> set (tr @ [Fetch i (make_request c u (atts ! i))])"
      using Suc.prems(3) ij by simp
    from Suc.hyps(1)[OF n a b d] Next(1) ij
    show ?thesis by (simp add: attempt_fetches_Cons[of i j])
  qed
qed

lemma loop_fetch_in_plan:
  assumes "Fetch j q \<in> set (snd (strategy_loop c u net atts i le tr))"
    and "\<forall>q. Fetch j q \<notin> set tr"
  shows "i \<le> j \<and> j < length atts \<and> q = make_request c u (atts ! j)"
proof -
  from loop_extends[of c u net atts i le tr] obtain ext where
    ext: "snd (strategy_loop c u net atts i le tr) = tr @ ext"
      "\<forall>e \<in> set ext.
        (\<exists>j. i \<le> j \<and> j < length atts \<and> e = Fetch j (make_request c u (atts ! j)))
        \<or> (\<exists>l. e = AddLogEntry l)"
    by blast
  from assms ext(1) have "Fetch j q \<in> set ext" by auto
  with ext(2) show ?thesis by fastforce
qed

lemma attempt_fetches_snoc:
  "i \<le> j \<Longrightarrow> attempt_fetches c u atts i j @ [Fetch j (make_request c u (atts ! j))]
     = attempt_fetches c u atts i (Suc j)"
  by (simp add: attempt_fetches_def)

lemma loop_first_success:
  assumes "Fetch j q \<in> set (snd (strategy_loop c u net atts i le tr))"
    and "\<forall>q. Fetch j q \<notin> set tr"
    and "net j q = Response r" "ok r"
  shows "strategy_loop c u net atts i le tr =
     (Inr \<lparr>data = parse_body r, successfulToken = token (atts ! j),
           successfulServerUrl = serverUrl (atts ! j)\<rparr>,
      tr @ attempt_fetches c u atts i (Suc j))"
proof -
  from loop_fetch_in_plan[OF assms(1,2)]
  have j: "i \<le> j" "j < length atts" and q: "q = make_request c u (atts ! j)" by simp_all
  from loop_reach[OF j(1) assms(1,2)] obtain le' where
    reach: "strategy_loop c u net atts i le tr =
           strategy_loop c u net atts j le' (tr @ attempt_fetches c u atts i j)" ..
  have "try_body (j = length atts - 1) (atts ! j) (net j (make_request c u (atts ! j)))
          = Return \<lparr>data = parse_body r, successfulToken = token (atts ! j),
                    successfulServerUrl = serverUrl (atts ! j)\<rparr>"
    using assms(3,4) q by (simp add: try_body_ok)
  from loop_Return[where net = net and c = c and u = u, OF j(2) this] reach
  show ?thesis by (simp add: attempt_fetches_snoc[OF j(1)])
qed

lemma no_fetch_gate_events: "Fetch j q \<notin> set (gate_events env c)"
  by (simp add: gate_events_def status_update_def)

lemma execute_granted:
  "\<not> (isGenerationRequest c \<and> (\<exists>e. gate = Rejected e)) \<Longrightarrow>
     executeProxiedRequest env rnd gate net c = run_attempts env rnd net c (gate_events env c)"
  by (cases gate) (simp_all add: executeProxiedRequest_def gate_events_def Let_def)

lemma execute_rejected:
  "isGenerationRequest c \<Longrightarrow>
     executeProxiedRequest env rnd (Rejected e) net c =
       (Inl e, status_update c ''Queueing...''
                 @ [RpcCall ''request_generation_slot'' 10 (currentServerUrl env c)])"
  by (simp add: executeProxiedRequest_def Let_def)

lemma execute_fetch_issued:
  assumes "Fetch i q \<in> set (snd (executeProxiedRequest env rnd gate net c))"
  shows "executeProxiedRequest env rnd gate net c =
           strategy_loop c (request_username env) net (buildAttempts env rnd c) 0
             (Error ''Unknown error'') (gate_events env c)
         \<and> Fetch i q \<in> set (snd (strategy_loop c (request_username env) net
               (buildAttempts env rnd c) 0 (Error ''Unknown error'') (gate_events env c)))"
proof -
  have g: "\<not> (isGenerationRequest c \<and> (\<exists>e. gate = Rejected e))"
    using assms by (auto simp: execute_rejected status_update_def)
  have ne: "buildAttempts env rnd c \<noteq> []"
    using assms by (auto simp: execute_granted[OF g] run_attempts_def Let_def no_fetch_gate_events)
  have "executeProxiedRequest env rnd gate net c =
           strategy_loop c (request_username env) net (buildAttempts env rnd c) 0
             (Error ''Unknown error'') (gate_events env c)"
    using ne by (simp add: execute_granted[OF g] run_attempts_def Let_def)
  with assms show ?thesis by simp
qed

text \<open>
  C1. When the network call of an attempt returns a success status, the dispatch
  returns at that attempt: the result carries the payload with the token and the server
  URL of exactly that attempt, and the events of the dispatch are those of step 1
  followed by the fetches of the attempts up to that one in the order of the plan, so
  the fetch of that attempt is the last event and no later attempt is issued.
\<close>

theorem first_success_returns:
  assumes "executeProxiedRequest env rnd gate net c = (res, tr)"
    and "Fetch i req \<in> set tr" and "net i req = Response r" and "ok r"
  shows "i < length (buildAttempts env rnd c)
     \<and> res = Inr \<lparr>data = parse_body r,
                  successfulToken = token (buildAttempts env rnd c ! i),
                  successfulServerUrl = serverUrl (buildAttempts env rnd c ! i)\<rparr>
     \<and> tr = gate_events env c
              @ attempt_fetches c (request_username env) (buildAttempts env rnd c) 0 (Suc i)"
proof -
  have issued: "Fetch i req \<in> set (snd (executeProxiedRequest env rnd gate net c))"
    using assms(1,2) by simp
  note ex = execute_fetch_issued[OF issued]
  have nf: "\<forall>q. Fetch i q \<notin> set (gate_events env c)"
    by (simp add: no_fetch_gate_events)
  from loop_fetch_in_plan[OF conjunct2[OF ex] nf]
  have "i < length (buildAttempts env rnd c)" by simp
  moreover from loop_first_success[OF conjunct2[OF ex] nf assms(3,4)] ex assms(1)
  have "res = Inr \<lparr>data = parse_body r,
                  successfulToken = token (buildAttempts env rnd c ! i),
                  successfulServerUrl = serverUrl (buildAttempts env rnd c ! i)\<rparr>"
    "tr = gate_events env c
              @ attempt_fetches c (request_username env) (buildAttempts env rnd c) 0 (Suc i)"
    by simp_all
  ultimately show ?thesis by simp
qed

text \<open>The second attempt of a pool dispatch succeeds.\<close>

theorem first_success_returns_witness:
  "Fetch 1 \<lparr>endpoint = ''https://veox.monoklix.com/api/veo/generate'',
             authorization = ''Bearer token-cccccc3'', x_user_username = ''unknown'',
             request_body = ''{}''\<rparr>
     \<in> set (snd (executeProxiedRequest demo_env demo_rnd (Resolved None) net_second_ok demo_call))
   \<and> ok accepted
   \<and> fst (executeProxiedRequest demo_env demo_rnd (Resolved None) net_second_ok demo_call)
       = Inr \<lparr>data = JObj [(''name'', JStr ''operations/1'')],
              successfulToken = ''token-cccccc3'',
              successfulServerUrl = ''https://veox.monoklix.com''\<rparr>"
proof -
  let ?out = "executeProxiedRequest demo_env demo_rnd (Resolved None) net_second_ok demo_call"
  let ?req = "\<lparr>endpoint = ''https://veox.monoklix.com/api/veo/generate'',
             authorization = ''Bearer token-cccccc3'', x_user_username = ''unknown'',
             request_body = ''{}''\<rparr>"
  have h1: "?out = (fst ?out, snd ?out)" by simp
  have h2: "Fetch 1 ?req \<in> set (snd ?out)" by code_simp
  have h3: "net_second_ok 1 ?req = Response accepted" by (simp add: net_second_ok_def)
  have h4: "ok accepted" by (simp add: accepted_def)
  have e: "\<lparr>data = parse_body accepted,
            successfulToken = token (buildAttempts demo_env demo_rnd demo_call ! 1),
            successfulServerUrl = serverUrl (buildAttempts demo_env demo_rnd demo_call ! 1)\<rparr>
         = \<lparr>data = JObj [(''name'', JStr ''operations/1'')],
              successfulToken = ''token-cccccc3'',
              successfulServerUrl = ''https://veox.monoklix.com''\<rparr>"
    by code_simp
  from first_success_returns[OF h1 h2 h3 h4] e h2 h4 show ?thesis by simp
qed






text \<open>
  C9. When the attempt list is empty no fetch is issued, and a dispatch that the slot
  request has not ended throws the error that no authentication token was found, right
  after the events of step 1.
\<close>

theorem empty_plan_fails_fast:
  assumes "buildAttempts env rnd c = []"
  shows "(\<forall>i q. Fetch i q \<notin> set (snd (executeProxiedRequest env rnd gate net c)))
     \<and> (\<not> (isGenerationRequest c \<and> (\<exists>e. gate = Rejected e)) \<longrightarrow>
          executeProxiedRequest env rnd gate net c = (Inl no_tokens_error, gate_events env c))"
proof (intro conjI allI impI)
  fix i q
  show "Fetch i q \<notin> set (snd (executeProxiedRequest env rnd gate net c))"
  proof
    assume "Fetch i q \<in> set (snd (executeProxiedRequest env rnd gate net c))"
    from execute_fetch_issued[OF this]
    have "Fetch i q \<in> set (snd (strategy_loop c (request_username env) net
               (buildAttempts env rnd c) 0 (Error ''Unknown error'') (gate_events env c)))"
      by simp
    then show False using assms by (simp add: loop_exit no_fetch_gate_events)
  qed
next
  assume "\<not> (isGenerationRequest c \<and> (\<exists>e. gate = Rejected e))"
  from execute_granted[OF this] assms
  show "executeProxiedRequest env rnd gate net c = (Inl no_tokens_error, gate_events env c)"
    by (simp add: run_attempts_def)
qed

text \<open>A generation request on a page without any token.\<close>

theorem empty_plan_fails_fast_witness:
  "buildAttempts demo_empty_env demo_rnd demo_call = []
   \<and> executeProxiedRequest demo_empty_env demo_rnd (Resolved None) net_second_ok demo_call
       = (Inl (Error ''No authentication tokens found. Please claim a token in Settings.''),
          [StatusUpdate ''Queueing...'',
           RpcCall ''request_generation_slot'' 10 ''https://veox.monoklix.com'',
           StatusUpdate ''Processing...''])"
proof -
  have h: "buildAttempts demo_empty_env demo_rnd demo_call = []" by code_simp
  have g: "gate_events demo_empty_env demo_call
     = [StatusUpdate ''Queueing...'',
           RpcCall ''request_generation_slot'' 10 ''https://veox.monoklix.com'',
           StatusUpdate ''Processing...'']"
    by code_simp
  from empty_plan_fails_fast[OF h, of "Resolved None" net_second_ok] g h
  show ?thesis by (simp add: no_tokens_error_def)
qed

lemma loop_cong:
  assumes "\<And>j l. j < length atts \<Longrightarrow>
     try_body l (atts ! j) (net j (make_request c u (atts ! j)))
       = try_body l (atts ! j) (net' j (make_request c u (atts ! j)))"
  shows "strategy_loop c u net atts i le tr = strategy_loop c u net' atts i le tr"
proof (induction "length atts - i" arbitrary: i le tr)
  case 0
  then show ?case by (simp add: loop_exit)
next
  case (Suc n)
  then have lt: "i < length atts" by simp
  have "n = length atts - Suc i" using Suc.hyps(2) by simp
  note IH = Suc.hyps(1)[OF this]
  show ?case
    by (simp add: strategy_loop.simps[of c u net atts i] strategy_loop.simps[of c u net' atts i]
          Let_def IH assms[OF lt] lt split: try_result.splits)
qed

lemma execute_cong:
  assumes "\<And>j l a. try_body l a (net j (make_request c (request_username env) a))
       = try_body l a (net' j (make_request c (request_username env) a))"
  shows "executeProxiedRequest env rnd gate net c = executeProxiedRequest env rnd gate net' c"
proof -
  have "strategy_loop c (request_username env) net (buildAttempts env rnd c) 0 le tr
      = strategy_loop c (request_username env) net' (buildAttempts env rnd c) 0 le tr" for le tr
    by (rule loop_cong) (rule assms)
  then show ?thesis
    by (simp add: executeProxiedRequest_def run_attempts_def Let_def split: rpc_outcome.splits)
qed

text \<open>
  C10. When an attempt gets a success status with a body that is not JSON, the dispatch
  returns success with the synthetic object
  \<open>{ error: { message: "Proxy returned non-JSON (<status>)" } }\<close> as data; a proxy
  that answers with that object as a genuine JSON body gives the same result and the
  same events.
\<close>

theorem non_json_success_payload:
  assumes "executeProxiedRequest env rnd gate net c = (res, tr)"
    and "Fetch i req \<in> set tr" and "net i req = Response r" and "ok r"
    and "body r = NotJson t"
  shows "res = Inr \<lparr>data = JObj [(''error'', JObj [(''message'',
                      JStr (''Proxy returned non-JSON ('' @ string_of_nat (status r) @ '')''))])],
                  successfulToken = token (buildAttempts env rnd c ! i),
                  successfulServerUrl = serverUrl (buildAttempts env rnd c ! i)\<rparr>
     \<and> executeProxiedRequest env rnd gate
         (\<lambda>j q. if j = i \<and> q = req
                then Response (r\<lparr>body := JsonText (JObj [(''error'', JObj [(''message'',
                      JStr (''Proxy returned non-JSON ('' @ string_of_nat (status r) @ '')''))])])\<rparr>)
                else net j q) c
         = (res, tr)"
proof -
  let ?synthetic = "JObj [(''error'', JObj [(''message'',
                      JStr (''Proxy returned non-JSON ('' @ string_of_nat (status r) @ '')''))])]"
  let ?net' = "\<lambda>j q. if j = i \<and> q = req then Response (r\<lparr>body := JsonText ?synthetic\<rparr>)
                else net j q"
  have pb: "parse_body r = ?synthetic"
    using assms(5) by (simp add: parse_body_def)
  have issued: "Fetch i req \<in> set (snd (executeProxiedRequest env rnd gate net c))"
    using assms(1,2) by simp
  note ex = execute_fetch_issued[OF issued]
  have nf: "\<forall>q. Fetch i q \<notin> set (gate_events env c)"
    by (simp add: no_fetch_gate_events)
  from loop_first_success[OF conjunct2[OF ex] nf assms(3,4)] ex assms(1) pb
  have res: "res = Inr \<lparr>data = ?synthetic,
                  successfulToken = token (buildAttempts env rnd c ! i),
                  successfulServerUrl = serverUrl (buildAttempts env rnd c ! i)\<rparr>"
    by simp
  have "try_body l a (net j (make_request c (request_username env) a))
       = try_body l a (?net' j (make_request c (request_username env) a))" for j l a
    using assms(3,4) pb by (simp add: try_body_ok) (simp add: parse_body_def)
  from execute_cong[of net c env ?net' rnd gate, OF this] assms(1)
  have "executeProxiedRequest env rnd gate ?net' c = (res, tr)" by simp
  with res show ?thesis by simp
qed

text \<open>The second attempt answers 200 with an HTML page.\<close>

theorem non_json_success_payload_witness:
  "Fetch 1 \<lparr>endpoint = ''https://veox.monoklix.com/api/veo/generate'',
             authorization = ''Bearer token-cccccc3'', x_user_username = ''unknown'',
             request_body = ''{}''\<rparr>
     \<in> set (snd (executeProxiedRequest demo_env demo_rnd (Resolved None) net_second_html demo_call))
   \<and> ok accepted_html \<and> body accepted_html = NotJson ''<html>OK</html>''
   \<and> fst (executeProxiedRequest demo_env demo_rnd (Resolved None) net_second_html demo_call)
       = Inr \<lparr>data = JObj [(''error'',
                       JObj [(''message'', JStr ''Proxy returned non-JSON (200)'')])],
              successfulToken = ''token-cccccc3'',
              successfulServerUrl = ''https://veox.monoklix.com''\<rparr>"
proof -
  let ?out = "executeProxiedRequest demo_env demo_rnd (Resolved None) net_second_html demo_call"
  let ?req = "\<lparr>endpoint = ''https://veox.monoklix.com/api/veo/generate'',
             authorization = ''Bearer token-cccccc3'', x_user_username = ''unknown'',
             request_body = ''{}''\<rparr>"
  have h1: "?out = (fst ?out, snd ?out)" by simp
  have h2: "Fetch 1 ?req \<in> set (snd ?out)" by code_simp
  have h3: "net_second_html 1 ?req = Response accepted_html" by (simp add: net_second_html_def)
  have h4: "ok accepted_html" by (simp add: accepted_html_def)
  have h5: "body accepted_html = NotJson ''<html>OK</html>''" by (simp add: accepted_html_def)
  have e: "\<lparr>data = JObj [(''error'', JObj [(''message'',
                      JStr (''Proxy returned non-JSON ('' @ string_of_nat (status accepted_html) @ '')''))])],
            successfulToken = token (buildAttempts demo_env demo_rnd demo_call ! 1),
            successfulServerUrl = serverUrl (buildAttempts demo_env demo_rnd demo_call ! 1)\<rparr>
         = \<lparr>data = JObj [(''error'',
                       JObj [(''message'', JStr ''Proxy returned non-JSON (200)'')])],
              successfulToken = ''token-cccccc3'',
              successfulServerUrl = ''https://veox.monoklix.com''\<rparr>"
    by code_simp
  from non_json_success_payload[OF h1 h2 h3 h4 h5] e h2 h4 h5 show ?thesis by simp
qed

text \<open>
  C8. With a specific token the attempt list is exactly that token on the current
  server, labelled \<open>Personal\<close> when it is the stored personal token and
  \<open>Specific\<close> otherwise; without one, a user with a personal token gets exactly that
  token on the current server, labelled \<open>Personal\<close>. Neither the pool nor the
  fallback servers play a part.
\<close>

theorem single_server_modes:
  "(specificToken c = Some t \<and> t \<noteq> [] \<longrightarrow>
      buildAttempts env rnd c =
        [\<lparr>token = t, serverUrl = currentServerUrl env c,
          source = (if getPersonalToken env = Some t then Personal else Specific)\<rparr>])
   \<and> (\<not> truthy (specificToken c) \<and> getPersonalToken env = Some p \<longrightarrow>
      buildAttempts env rnd c =
        [\<lparr>token = p, serverUrl = currentServerUrl env c, source = Personal\<rparr>])"
  by (simp add: buildAttempts_def build_plan_def Let_def addAttempt_def empty_plan_def)

text \<open>A pinned status poll and a generation request of a user with a personal token.\<close>

theorem single_server_modes_witness:
  "buildAttempts demo_personal_env demo_rnd demo_status_call
     = [\<lparr>token = ''token-pinned-7'', serverUrl = ''https://s2.monoklix.com'',
         source = Specific\<rparr>]
   \<and> buildAttempts demo_personal_env demo_rnd demo_call
     = [\<lparr>token = ''personal-token-9'', serverUrl = ''https://veox.monoklix.com'',
         source = Personal\<rparr>]"
proof -
  have a: "specificToken demo_status_call = Some ''token-pinned-7''"
    by (simp add: demo_status_call_def)
  have b: "\<not> truthy (specificToken demo_call)" by (simp add: demo_call_def)
  have p: "getPersonalToken demo_personal_env = Some ''personal-token-9''" by code_simp
  have s1: "currentServerUrl demo_personal_env demo_status_call = ''https://s2.monoklix.com''"
    by code_simp
  have s2: "currentServerUrl demo_personal_env demo_call = ''https://veox.monoklix.com''"
    by code_simp
  from single_server_modes[of demo_status_call "''token-pinned-7''" demo_personal_env demo_rnd
      "''personal-token-9''"] a p s1
  have 1: "buildAttempts demo_personal_env demo_rnd demo_status_call
     = [\<lparr>token = ''token-pinned-7'', serverUrl = ''https://s2.monoklix.com'',
         source = Specific\<rparr>]"
    by simp
  from single_server_modes[of demo_call "''token-pinned-7''" demo_personal_env demo_rnd
      "''personal-token-9''"] b p s2
  have 2: "buildAttempts demo_personal_env demo_rnd demo_call
     = [\<lparr>token = ''personal-token-9'', serverUrl = ''https://veox.monoklix.com'',
         source = Personal\<rparr>]"
    by simp
  from 1 2 show ?thesis by simp
qed


section \<open>Failures of an attempt\<close>

lemma try_body_NetworkError: "try_body l a (NetworkError e) = Throw e"
  by (simp add: try_body_def)

text \<open>
  C4, as the code has it. When the transport of an attempt fails with an error whose
  text does not pass the test of the \<open>catch\<close> block (it contains neither
  \<open>[400]\<close> nor, in any case of letters, \<open>safety\<close> or \<open>blocked\<close>), the next
  attempt is issued; when the attempt is the last one, that error is thrown to the
  caller, after a log entry when no specific token was given.
\<close>

theorem transport_failure_is_retried:
  assumes "executeProxiedRequest env rnd gate net c = (res, tr)"
    and "Fetch i req \<in> set tr" and "net i req = NetworkError e"
    and "\<not> isSafetyError (message e)"
  shows "(Suc i < length (buildAttempts env rnd c) \<longrightarrow>
            Fetch (Suc i) (make_request c (request_username env) (buildAttempts env rnd c ! Suc i))
              \<in> set tr)
     \<and> (Suc i = length (buildAttempts env rnd c) \<longrightarrow>
            res = Inl e
          \<and> tr = gate_events env c
                @ attempt_fetches c (request_username env) (buildAttempts env rnd c) 0 (Suc i)
                @ (if truthy (specificToken c) then []
                   else [AddLogEntry (failure_log c (Suc i) (message e))]))"
proof -
  let ?u = "request_username env" and ?atts = "buildAttempts env rnd c"
  let ?q = "make_request c ?u (?atts ! i)"
  have issued: "Fetch i req \<in> set (snd (executeProxiedRequest env rnd gate net c))"
    using assms(1,2) by simp
  note ex = execute_fetch_issued[OF issued]
  have nf: "\<forall>q. Fetch i q \<notin> set (gate_events env c)"
    by (simp add: no_fetch_gate_events)
  from loop_fetch_in_plan[OF conjunct2[OF ex] nf]
  have lt: "i < length ?atts" and q: "req = ?q" by simp_all
  have out: "strategy_loop c ?u net ?atts 0 (Error ''Unknown error'') (gate_events env c)
       = (res, tr)"
    using ex assms(1) by simp
  from loop_reach[OF _ conjunct2[OF ex] nf] obtain le' where
    "strategy_loop c ?u net ?atts 0 (Error ''Unknown error'') (gate_events env c)
       = strategy_loop c ?u net ?atts i le' (gate_events env c @ attempt_fetches c ?u ?atts 0 i)"
    by auto
  with out have reach:
    "strategy_loop c ?u net ?atts i le' (gate_events env c @ attempt_fetches c ?u ?atts 0 i)
       = (res, tr)"
    by simp
  have tb: "try_body (i = length ?atts - 1) (?atts ! i) (net i ?q) = Throw e"
    using assms(3) q by (simp add: try_body_NetworkError)
  have next_issued: "Fetch (Suc i) (make_request c ?u (?atts ! Suc i)) \<in> set tr"
    if more: "Suc i < length ?atts"
  proof -
    from more have "i \<noteq> length ?atts - 1" by simp
    from loop_Throw_next[where net = net and c = c and u = ?u, OF lt tb assms(4) this,
        of le' "gate_events env c @ attempt_fetches c ?u ?atts 0 i"] reach
    have step: "strategy_loop c ?u net ?atts (Suc i) e
           ((gate_events env c @ attempt_fetches c ?u ?atts 0 i) @ [Fetch i ?q]) = (res, tr)"
      by simp
    from loop_first_fetch[OF more, of c ?u net e
        "(gate_events env c @ attempt_fetches c ?u ?atts 0 i) @ [Fetch i ?q]"]
    obtain ext where "snd (strategy_loop c ?u net ?atts (Suc i) e
           ((gate_events env c @ attempt_fetches c ?u ?atts 0 i) @ [Fetch i ?q]))
        = ((gate_events env c @ attempt_fetches c ?u ?atts 0 i) @ [Fetch i ?q])
            @ Fetch (Suc i) (make_request c ?u (?atts ! Suc i)) # ext"
      by blast
    with step have "tr = ((gate_events env c @ attempt_fetches c ?u ?atts 0 i) @ [Fetch i ?q])
            @ Fetch (Suc i) (make_request c ?u (?atts ! Suc i)) # ext"
      by simp
    then show ?thesis by simp
  qed
  have surfaced: "res = Inl e
          \<and> tr = gate_events env c @ attempt_fetches c ?u ?atts 0 (Suc i)
                @ (if truthy (specificToken c) then []
                   else [AddLogEntry (failure_log c (Suc i) (message e))])"
    if final: "Suc i = length ?atts"
  proof -
    from final have l: "i = length ?atts - 1" by simp
    from loop_Throw_last[where net = net and c = c and u = ?u, OF lt tb assms(4) l,
        of le' "gate_events env c @ attempt_fetches c ?u ?atts 0 i"] reach
    have "(res, tr)
       = (Inl e, (gate_events env c @ attempt_fetches c ?u ?atts 0 i) @ [Fetch i ?q]
            @ (if \<not> truthy (specificToken c)
               then [AddLogEntry (failure_log c (length ?atts) (message e))] else []))"
      by simp
    then show ?thesis
      by (simp add: attempt_fetches_def final[symmetric])
  qed
  from next_issued surfaced show ?thesis by blast
qed

text \<open>The third attempt fails with \<open>Failed to fetch\<close>, in a plan of nine and in a plan of three.\<close>

theorem transport_failure_is_retried_witness:
  "Fetch 3 \<lparr>endpoint = ''https://s3.monoklix.com/api/veo/generate'',
             authorization = ''Bearer token-aaaaaa1'', x_user_username = ''unknown'',
             request_body = ''{}''\<rparr>
     \<in> set (snd (executeProxiedRequest demo_env demo_rnd (Resolved None) net_transport_down demo_call))
   \<and> fst (executeProxiedRequest demo_env demo_rnd (Resolved None) net_transport_down
             demo_override_call)
       = Inl (Error ''Failed to fetch'')"
proof -
  let ?out = "executeProxiedRequest demo_env demo_rnd (Resolved None) net_transport_down demo_call"
  let ?out' = "executeProxiedRequest demo_env demo_rnd (Resolved None) net_transport_down
                 demo_override_call"
  let ?q = "\<lparr>endpoint = ''https://veox.monoklix.com/api/veo/generate'',
             authorization = ''Bearer token-bbbbbb2'', x_user_username = ''unknown'',
             request_body = ''{}''\<rparr>"
  let ?q' = "\<lparr>endpoint = ''https://s1.monoklix.com/api/veo/generate'',
             authorization = ''Bearer token-bbbbbb2'', x_user_username = ''unknown'',
             request_body = ''{}''\<rparr>"
  have n: "\<not> isSafetyError (message (Error ''Failed to fetch''))" by code_simp
  have a1: "?out = (fst ?out, snd ?out)" by simp
  have a2: "Fetch 2 ?q \<in> set (snd ?out)" by code_simp
  have a3: "net_transport_down 2 ?q = NetworkError (Error ''Failed to fetch'')"
    by (simp add: net_transport_down_def)
  have a4: "Suc 2 < length (buildAttempts demo_env demo_rnd demo_call)" by code_simp
  have a5: "make_request demo_call (request_username demo_env)
              (buildAttempts demo_env demo_rnd demo_call ! Suc 2)
            = \<lparr>endpoint = ''https://s3.monoklix.com/api/veo/generate'',
             authorization = ''Bearer token-aaaaaa1'', x_user_username = ''unknown'',
             request_body = ''{}''\<rparr>"
    by code_simp
  have b1: "?out' = (fst ?out', snd ?out')" by simp
  have b2: "Fetch 2 ?q' \<in> set (snd ?out')" by code_simp
  have b3: "net_transport_down 2 ?q' = NetworkError (Error ''Failed to fetch'')"
    by (simp add: net_transport_down_def)
  have b4: "Suc 2 = length (buildAttempts demo_env demo_rnd demo_override_call)" by code_simp
  from transport_failure_is_retried[OF a1 a2 a3 n] a4 a5
  have 1: "Fetch 3 \<lparr>endpoint = ''https://s3.monoklix.com/api/veo/generate'',
             authorization = ''Bearer token-aaaaaa1'', x_user_username = ''unknown'',
             request_body = ''{}''\<rparr> \<in> set (snd ?out)"
    by (simp add: numeral_3_eq_3)
  from transport_failure_is_retried[OF b1 b2 b3 n] b4
  have 2: "fst ?out' = Inl (Error ''Failed to fetch'')" by simp
  from 1 2 show ?thesis by simp
qed

text \<open>
  A transport error whose text contains \<open>blocked\<close> ends the dispatch at the first
  of nine attempts: the second attempt is never issued.
\<close>

theorem transport_failure_counterexample:
  "length (buildAttempts demo_env demo_rnd demo_call) = 9
   \<and> net_transport_blocked 0
        \<lparr>endpoint = ''https://veox.monoklix.com/api/veo/generate'',
         authorization = ''Bearer token-aaaaaa1'', x_user_username = ''unknown'',
         request_body = ''{}''\<rparr>
       = NetworkError (Error ''The request was blocked by the client'')
   \<and> executeProxiedRequest demo_env demo_rnd (Resolved None) net_transport_blocked demo_call
       = (Inl (Error ''The request was blocked by the client''),
          [StatusUpdate ''Queueing...'',
           RpcCall ''request_generation_slot'' 10 ''https://veox.monoklix.com'',
           StatusUpdate ''Processing...'',
           Fetch 0 \<lparr>endpoint = ''https://veox.monoklix.com/api/veo/generate'',
                    authorization = ''Bearer token-aaaaaa1'', x_user_username = ''unknown'',
                    request_body = ''{}''\<rparr>])"
  by code_simp

lemma retriable_not_last:
  assumes "retriable_failure False fr"
  shows "try_body False a fr = Continue
     \<or> (\<exists>e. try_body False a fr = Throw e \<and> \<not> isSafetyError (message e))"
  using assms
  by (auto simp: retriable_failure_def try_body_def Let_def
           split: fetch_result.splits sum.splits json.splits)

lemma retriable_last:
  assumes "retriable_failure True fr"
  shows "try_body True a fr = Throw (attempt_error fr)
     \<and> \<not> isSafetyError (message (attempt_error fr))"
  using assms
  by (auto simp: retriable_failure_def try_body_def attempt_error_def isSafetyError_def Let_def
           split: fetch_result.splits sum.splits json.splits)

lemma loop_all_retriable:
  assumes "i < length atts"
    and "\<forall>j. i \<le> j \<and> j < length atts \<longrightarrow>
           retriable_failure (Suc j = length atts) (net j (make_request c u (atts ! j)))"
  shows "strategy_loop c u net atts i le tr =
     (Inl (attempt_error (net (length atts - 1) (make_request c u (atts ! (length atts - 1))))),
      tr @ attempt_fetches c u atts i (length atts)
        @ (if truthy (specificToken c) then []
           else [AddLogEntry (failure_log c (length atts)
                   (message (attempt_error
                      (net (length atts - 1) (make_request c u (atts ! (length atts - 1)))))))]))"
  using assms
proof (induction "length atts - i" arbitrary: i le tr)
  case 0
  then show ?case by simp
next
  case (Suc n)
  let ?q = "make_request c u (atts ! i)"
  have lt: "i < length atts" by fact
  have rf: "retriable_failure (Suc i = length atts) (net i ?q)"
    using Suc.prems by simp
  show ?case
  proof (cases "Suc i = length atts")
    case True
    then have l: "i = length atts - 1" by simp
    from rf True retriable_last[of "net i ?q" "atts ! i"]
    have tb: "try_body (i = length atts - 1) (atts ! i) (net i ?q) = Throw (attempt_error (net i ?q))"
      and ns: "\<not> isSafetyError (message (attempt_error (net i ?q)))"
      using l by simp_all
    from loop_Throw_last[where net = net and c = c and u = u, OF lt tb ns l, of le tr] True l
    show ?thesis
      by (simp add: attempt_fetches_def upt_conv_Cons)
  next
    case False
    then have more: "Suc i < length atts" and nl: "i \<noteq> length atts - 1" using lt by simp_all
    have n: "n = length atts - Suc i" using Suc.hyps(2) by simp
    have rest: "\<forall>j. Suc i \<le> j \<and> j < length atts \<longrightarrow>
           retriable_failure (Suc j = length atts) (net j (make_request c u (atts ! j)))"
      using Suc.prems(2) by simp
    note IH = Suc.hyps(1)[OF n more rest]
    from rf False retriable_not_last[of "net i ?q" "atts ! i"]
    consider "try_body (i = length atts - 1) (atts ! i) (net i ?q) = Continue"
      | e where "try_body (i = length atts - 1) (atts ! i) (net i ?q) = Throw e"
          "\<not> isSafetyError (message e)"
      using nl by auto
    then show ?thesis
    proof cases
      case 1
      from loop_Continue[where net = net and c = c and u = u, OF lt 1, of le tr]
        IH[of le "tr @ [Fetch i ?q]"]
      show ?thesis by (simp add: attempt_fetches_Cons[OF lt])
    next
      case 2
      from loop_Throw_next[where net = net and c = c and u = u, OF lt 2 nl, of le tr]
        IH[of e "tr @ [Fetch i ?q]"]
      show ?thesis by (simp add: attempt_fetches_Cons[OF lt])
    qed
  qed
qed

text \<open>
  C3, as the code has it. When the plan is not empty, the slot request has not ended the
  dispatch and every attempt fails without being marked terminal by either test
  (\<open>retriable_failure\<close>), the dispatch issues one fetch per attempt, in order, throws
  the error of the last attempt and, when no specific token was given, adds one log
  entry that names the number of attempts.
\<close>

theorem all_retriable_exhausts:
  assumes "buildAttempts env rnd c \<noteq> []"
    and "\<not> (isGenerationRequest c \<and> (\<exists>e. gate = Rejected e))"
    and "\<forall>i < length (buildAttempts env rnd c).
           retriable_failure (Suc i = length (buildAttempts env rnd c))
             (net i (make_request c (request_username env) (buildAttempts env rnd c ! i)))"
  shows "executeProxiedRequest env rnd gate net c =
     (Inl (attempt_error (net (length (buildAttempts env rnd c) - 1)
             (make_request c (request_username env) (last (buildAttempts env rnd c))))),
      gate_events env c
        @ attempt_fetches c (request_username env) (buildAttempts env rnd c) 0
            (length (buildAttempts env rnd c))
        @ (if truthy (specificToken c) then []
           else [AddLogEntry (failure_log c (length (buildAttempts env rnd c))
                   (message (attempt_error (net (length (buildAttempts env rnd c) - 1)
                      (make_request c (request_username env)
                         (last (buildAttempts env rnd c)))))))]))"
proof -
  let ?atts = "buildAttempts env rnd c"
  have lt: "0 < length ?atts" using assms(1) by simp
  have l: "last ?atts = ?atts ! (length ?atts - 1)"
    using assms(1) by (simp add: last_conv_nth)
  have rf: "\<forall>j. 0 \<le> j \<and> j < length ?atts \<longrightarrow>
           retriable_failure (Suc j = length ?atts)
             (net j (make_request c (request_username env) (?atts ! j)))"
    using assms(3) by simp
  from loop_all_retriable[where net = net and c = c and u = "request_username env"
      and le = "Error ''Unknown error''" and tr = "gate_events env c", OF lt rf]
    execute_granted[OF assms(2), of env rnd net] assms(1)
  show ?thesis by (simp add: run_attempts_def Let_def l)
qed

text \<open>Three pool tokens on one server, each answered with 503.\<close>

theorem all_retriable_exhausts_witness:
  "executeProxiedRequest demo_env demo_rnd (Resolved None) net_unavailable demo_override_call
       = (Inl (Error ''Service unavailable''),
          [StatusUpdate ''Queueing...'',
           RpcCall ''request_generation_slot'' 10 ''https://s1.monoklix.com'',
           StatusUpdate ''Processing...'',
           Fetch 0 \<lparr>endpoint = ''https://s1.monoklix.com/api/veo/generate'',
                    authorization = ''Bearer token-aaaaaa1'', x_user_username = ''unknown'',
                    request_body = ''{}''\<rparr>,
           Fetch 1 \<lparr>endpoint = ''https://s1.monoklix.com/api/veo/generate'',
                    authorization = ''Bearer token-cccccc3'', x_user_username = ''unknown'',
                    request_body = ''{}''\<rparr>,
           Fetch 2 \<lparr>endpoint = ''https://s1.monoklix.com/api/veo/generate'',
                    authorization = ''Bearer token-bbbbbb2'', x_user_username = ''unknown'',
                    request_body = ''{}''\<rparr>,
           AddLogEntry \<lparr>log_model = ''VEO GENERATE'', log_prompt = ''Failed after 3 attempts'',
                        log_output = ''Service unavailable'', log_tokenCount = 0,
                        log_status = ''Error'', log_error = ''Service unavailable''\<rparr>])"
proof -
  let ?atts = "buildAttempts demo_env demo_rnd demo_override_call"
  have h1: "?atts \<noteq> []" by code_simp
  have h2: "\<not> (isGenerationRequest demo_override_call \<and> (\<exists>e. Resolved None = Rejected e))"
    by simp
  have r1: "retriable_failure True (Response unavailable)" by code_simp
  have r2: "retriable_failure False (Response unavailable)" by code_simp
  have r: "retriable_failure b (Response unavailable)" for b
    by (cases b) (simp_all add: r1 r2)
  have h3: "\<forall>i < length ?atts. retriable_failure (Suc i = length ?atts)
     (net_unavailable i (make_request demo_override_call (request_username demo_env) (?atts ! i)))"
    by (simp add: net_unavailable_def r)
  have e: "(Inl (attempt_error (net_unavailable (length ?atts - 1)
             (make_request demo_override_call (request_username demo_env) (last ?atts))))
        :: js_error + success,
      gate_events demo_env demo_override_call
        @ attempt_fetches demo_override_call (request_username demo_env) ?atts 0 (length ?atts)
        @ (if truthy (specificToken demo_override_call) then []
           else [AddLogEntry (failure_log demo_override_call (length ?atts)
                   (message (attempt_error (net_unavailable (length ?atts - 1)
                      (make_request demo_override_call (request_username demo_env)
                         (last ?atts))))))]))
    = (Inl (Error ''Service unavailable''),
          [StatusUpdate ''Queueing...'',
           RpcCall ''request_generation_slot'' 10 ''https://s1.monoklix.com'',
           StatusUpdate ''Processing...'',
           Fetch 0 \<lparr>endpoint = ''https://s1.monoklix.com/api/veo/generate'',
                    authorization = ''Bearer token-aaaaaa1'', x_user_username = ''unknown'',
                    request_body = ''{}''\<rparr>,
           Fetch 1 \<lparr>endpoint = ''https://s1.monoklix.com/api/veo/generate'',
                    authorization = ''Bearer token-cccccc3'', x_user_username = ''unknown'',
                    request_body = ''{}''\<rparr>,
           Fetch 2 \<lparr>endpoint = ''https://s1.monoklix.com/api/veo/generate'',
                    authorization = ''Bearer token-bbbbbb2'', x_user_username = ''unknown'',
                    request_body = ''{}''\<rparr>,
           AddLogEntry \<lparr>log_model = ''VEO GENERATE'', log_prompt = ''Failed after 3 attempts'',
                        log_output = ''Service unavailable'', log_tokenCount = 0,
                        log_status = ''Error'', log_error = ''Service unavailable''\<rparr>])"
    by code_simp
  from all_retriable_exhausts[where net = net_unavailable, OF h1 h2 h3] e
  show ?thesis by simp
qed

text \<open>
  Two dispatches without a specific token in which no attempt is terminal by status or
  by the words of its message. In the first the only attempt gets a 500 whose message
  quotes \<open>[400]\<close>: the error is thrown and no log entry is added. In the second the
  transport of the second of three attempts fails with a text that contains
  \<open>blocked\<close>: two fetches are issued, not three, and no log entry is added.
\<close>

theorem all_retriable_counterexample:
  "buildAttempts demo_single_env demo_rnd demo_override_call
     = [\<lparr>token = ''token-aaaaaa1'', serverUrl = ''https://s1.monoklix.com'', source = Pool\<rparr>]
   \<and> specificToken demo_override_call = None
   \<and> status upstream_failed = 500
   \<and> executeProxiedRequest demo_single_env demo_rnd (Resolved None) net_upstream_failed
        demo_override_call
       = (Inl (Error ''Upstream answered [400] to the proxy''),
          [StatusUpdate ''Queueing...'',
           RpcCall ''request_generation_slot'' 10 ''https://s1.monoklix.com'',
           StatusUpdate ''Processing...'',
           Fetch 0 \<lparr>endpoint = ''https://s1.monoklix.com/api/veo/generate'',
                    authorization = ''Bearer token-aaaaaa1'', x_user_username = ''unknown'',
                    request_body = ''{}''\<rparr>])
   \<and> length (buildAttempts demo_env demo_rnd demo_override_call) = 3
   \<and> executeProxiedRequest demo_env demo_rnd (Resolved None) net_transport_firewall
        demo_override_call
       = (Inl (Error ''Connection blocked by the firewall''),
          [StatusUpdate ''Queueing...'',
           RpcCall ''request_generation_slot'' 10 ''https://s1.monoklix.com'',
           StatusUpdate ''Processing...'',
           Fetch 0 \<lparr>endpoint = ''https://s1.monoklix.com/api/veo/generate'',
                    authorization = ''Bearer token-aaaaaa1'', x_user_username = ''unknown'',
                    request_body = ''{}''\<rparr>,
           Fetch 1 \<lparr>endpoint = ''https://s1.monoklix.com/api/veo/generate'',
                    authorization = ''Bearer token-cccccc3'', x_user_username = ''unknown'',
                    request_body = ''{}''\<rparr>])"
  by code_simp

lemma str_includes_append_left: "str_includes s sub \<Longrightarrow> str_includes (p @ s) sub"
  by (auto simp: str_includes_def sublist_def) (metis append.assoc)

lemma string_of_nat_400: "string_of_nat 400 = ''400''"
  by code_simp

lemma terminal_passes_handler:
  assumes "st = 400 \<or> str_includes (toLowerCase m) ''safety''
             \<or> str_includes (toLowerCase m) ''blocked''"
  shows "isSafetyError (''['' @ string_of_nat st @ ''] '' @ m)"
proof -
  have a: "str_includes (''['' @ string_of_nat st @ ''] '' @ m) ''[400]''" if "st = 400"
  proof -
    have "''['' @ string_of_nat st @ ''] '' @ m = ''[400]'' @ ('' '' @ m)"
      using that by (simp add: string_of_nat_400)
    then show ?thesis by (simp only: str_includes_def sublist_append_rightI)
  qed
  have b: "str_includes (toLowerCase (''['' @ string_of_nat st @ ''] '' @ m)) w"
    if "str_includes (toLowerCase m) w" for w
  proof -
    have "toLowerCase (''['' @ string_of_nat st @ ''] '' @ m)
            = toLowerCase (''['' @ string_of_nat st @ ''] '') @ toLowerCase m"
      by (simp add: toLowerCase_def)
    then show ?thesis using that by (simp only: str_includes_append_left)
  qed
  from assms a b show ?thesis by (auto simp only: isSafetyError_def)
qed

lemma string_message_classification:
  assumes "\<not> ok r" and "extract_errorMessage (parse_body r) (status r) = Inr (JStr m)"
  shows "try_body l a (Response r) =
     (if status r = 400 \<or> str_includes (toLowerCase m) ''safety''
           \<or> str_includes (toLowerCase m) ''blocked''
      then Throw (Error (''['' @ string_of_nat (status r) @ ''] '' @ m))
      else if l then Throw (Error m) else Continue)"
  using assms by (simp add: try_body_def Let_def)

text \<open>
  When the body yields a message that is a string, a response with status 400 or with
  a message that names \<open>safety\<close> or \<open>blocked\<close> ends the dispatch at once: the
  error carries the status in brackets, no later attempt is issued and nothing is
  logged.
\<close>

lemma terminal_failure_stops:
  assumes "executeProxiedRequest env rnd gate net c = (res, tr)"
    and "Fetch i req \<in> set tr" and "net i req = Response r" and "\<not> ok r"
    and "extract_errorMessage (parse_body r) (status r) = Inr (JStr m)"
    and "status r = 400 \<or> str_includes (toLowerCase m) ''safety''
           \<or> str_includes (toLowerCase m) ''blocked''"
  shows "res = Inl (Error (''['' @ string_of_nat (status r) @ ''] '' @ m))
     \<and> tr = gate_events env c
              @ attempt_fetches c (request_username env) (buildAttempts env rnd c) 0 (Suc i)"
proof -
  let ?u = "request_username env" and ?atts = "buildAttempts env rnd c"
  let ?q = "make_request c ?u (?atts ! i)"
  let ?e = "Error (''['' @ string_of_nat (status r) @ ''] '' @ m)"
  have issued: "Fetch i req \<in> set (snd (executeProxiedRequest env rnd gate net c))"
    using assms(1,2) by simp
  note ex = execute_fetch_issued[OF issued]
  have nf: "\<forall>q. Fetch i q \<notin> set (gate_events env c)"
    by (simp add: no_fetch_gate_events)
  from loop_fetch_in_plan[OF conjunct2[OF ex] nf]
  have lt: "i < length ?atts" and q: "req = ?q" by simp_all
  have out: "strategy_loop c ?u net ?atts 0 (Error ''Unknown error'') (gate_events env c)
       = (res, tr)"
    using ex assms(1) by simp
  from loop_reach[OF _ conjunct2[OF ex] nf] obtain le' where
    "strategy_loop c ?u net ?atts 0 (Error ''Unknown error'') (gate_events env c)
       = strategy_loop c ?u net ?atts i le' (gate_events env c @ attempt_fetches c ?u ?atts 0 i)"
    by auto
  with out have reach:
    "strategy_loop c ?u net ?atts i le' (gate_events env c @ attempt_fetches c ?u ?atts 0 i)
       = (res, tr)"
    by simp
  have tb: "try_body (i = length ?atts - 1) (?atts ! i) (net i ?q) = Throw ?e"
    using assms(3,6) q string_message_classification[OF assms(4,5)] by simp
  have sf: "isSafetyError (message ?e)"
    using terminal_passes_handler[OF assms(6)] by simp
  from loop_Throw_safety[where net = net and c = c and u = ?u, OF lt tb sf,
      of le' "gate_events env c @ attempt_fetches c ?u ?atts 0 i"] reach
  show ?thesis by (simp add: attempt_fetches_def)
qed

text \<open>
  C2 at a response the code mishandles. The first attempt gets status 400 with a body
  whose \<open>message\<close> is a list of strings. \<open>errorMessage.toLowerCase()\<close> throws a
  \<open>TypeError\<close> before the status is tested, the \<open>catch\<close> block finds none of its
  marks in that text, and the loop goes on: the second token is tried and the dispatch
  returns its success.
\<close>

theorem bad_request_list_is_retried:
  "status bad_request_list = 400
   \<and> executeProxiedRequest demo_env demo_rnd (Resolved None) net_bad_request_list demo_override_call
       = (Inr \<lparr>data = JObj [(''name'', JStr ''operations/1'')],
               successfulToken = ''token-cccccc3'',
               successfulServerUrl = ''https://s1.monoklix.com''\<rparr>,
          [StatusUpdate ''Queueing...'',
           RpcCall ''request_generation_slot'' 10 ''https://s1.monoklix.com'',
           StatusUpdate ''Processing...'',
           Fetch 0 \<lparr>endpoint = ''https://s1.monoklix.com/api/veo/generate'',
                    authorization = ''Bearer token-aaaaaa1'', x_user_username = ''unknown'',
                    request_body = ''{}''\<rparr>,
           Fetch 1 \<lparr>endpoint = ''https://s1.monoklix.com/api/veo/generate'',
                    authorization = ''Bearer token-cccccc3'', x_user_username = ''unknown'',
                    request_body = ''{}''\<rparr>])"
  by code_simp

section \<open>The plan of the pool\<close>














end
